theory Spec2Isabelle
  imports Complex_Main
begin

section \<open>Numbers\<close>

text \<open>
  The application computes money with JavaScript numbers. They are modelled as exact
  reals: every property below is about the branch structure and the arithmetic
  expressions of the source, read without rounding error, without NaN and without
  infinities. Where the source can meet NaN (the result of \<^verbatim>\<open>parseFloat\<close>), the
  input is an option and \<open>None\<close> stands for NaN.
\<close>



text \<open>\<^verbatim>\<open>s || ''\<close> on an optional string.\<close>

definition or_empty :: "string option \<Rightarrow> string" where
  "or_empty s = (case s of None \<Rightarrow> [] | Some v \<Rightarrow> v)"

text \<open>JavaScript truthiness of an optional string: \<^verbatim>\<open>undefined\<close> and \<^verbatim>\<open>''\<close> are falsy.\<close>

definition truthy :: "string option \<Rightarrow> bool" where
  "truthy s = (case s of None \<Rightarrow> False | Some v \<Rightarrow> v \<noteq> [])"

section \<open>Data model (src/types/index.ts)\<close>

record Product =
  product_id :: string
  product_code :: string
  product_name :: string
  product_unitprice :: real
  product_taxrate :: real
  product_stockquantity :: real
  product_unit :: string

record InvoiceItem =
  item_id :: string
  productId :: string
  product :: "Product option"
  quantity :: real
  unitprice :: real
  taxrate :: real
  discount :: real
  totalExcl :: real
  totalTax :: real
  item_total :: real
  item_unit :: string

record InvoicePayment =
  payment_id :: string
  invoiceId :: string
  amount :: real
  pay_date :: string
  paymentMethod :: string
  reference :: string
  pay_notes :: "string option"

text \<open>
  The status of a final invoice is a string at run time. src/types/index.ts declares
  the values NonPaye, paye, partially_paid, annule and credited (the first, second and
  fourth written with an e acute), and the detail page works with
  \<^verbatim>\<open>'unpaid' | 'paid' | 'partially_paid' | 'cancelled' | 'credited'\<close>; the model keeps the
  string, so both vocabularies are inputs of the functions below.
\<close>

text \<open>The unpaid status as src/types/index.ts and the creation form spell it.\<close>

definition NonPaye :: string where
  "NonPaye = ''NonPay'' @ [CHR 0xE9]"

record FinalInvoice =
  invoice_id :: string
  number :: string
  clientid :: string
  issuedate :: string
  inv_notes :: string
  subtotal :: real
  taxtotal :: real
  total :: real
  status :: string
  created_by_userid :: string
  createdat :: string
  updatedat :: string
  payment_type :: "string option"
  stamp_tax :: real
  bc :: "string option"
  amount_paid :: "real option"
  client_debt :: "real option"
  items :: "InvoiceItem list"
  payment_date :: "string option"
  paymentdate :: "string option"
  proformaId :: "string option"

datatype proforma_status = draft | sent | approved | rejected

record ProformaInvoice =
  pf_id :: string
  pf_clientid :: string
  pf_notes :: "string option"
  pf_items :: "InvoiceItem list"
  pf_status :: proforma_status
  finalInvoiceId :: "string option"
  pf_payment_type :: "string option"
  pf_bc :: "string option"

section \<open>Money and tax calculator\<close>

text \<open>
  \<^verbatim>\<open>calculateStampTax\<close>, defined with the same body in the proforma detail page
  (src/unnamed/part_003, lines 177-189) and in NewFinalInvoice.tsx (lines 78-90).
\<close>

definition calculateStampTax :: "string \<Rightarrow> real \<Rightarrow> real" where
  "calculateStampTax paymentType sub =
     (if paymentType \<noteq> ''cash'' then 0
      else if sub > 100000 then sub * 0.02
      else if sub > 30000 then sub * 0.015
      else if sub > 300 then sub * 0.01
      else 0)"

text \<open>An item as the forms hold it (\<^verbatim>\<open>invoiceItemSchema\<close>).\<close>

record ItemInput =
  in_id :: string
  in_productId :: string
  in_quantity :: real
  in_unitprice :: real
  in_taxrate :: real
  in_discount :: real

text \<open>\<^verbatim>\<open>products.find(p => p.id === productId)\<close>.\<close>

definition find_product :: "Product list \<Rightarrow> string \<Rightarrow> Product option" where
  "find_product products pid = List.find (\<lambda>p. product_id p = pid) products"

text \<open>
  The item computation of \<^verbatim>\<open>createInvoiceMutation\<close> in NewFinalInvoice.tsx
  (lines 147-166): the discount is a percentage. \<open>fresh\<close> is the identifier that
  \<^verbatim>\<open>uuidv4()\<close> would give when the item has an empty id.
\<close>

definition calculatedItem :: "Product list \<Rightarrow> string \<Rightarrow> ItemInput \<Rightarrow> InvoiceItem" where
  "calculatedItem products fresh item =
     (let prod = find_product products (in_productId item);
          tExcl = in_quantity item * in_unitprice item * (1 - in_discount item / 100);
          tTax = tExcl * (in_taxrate item / 100);
          tot = tExcl + tTax
      in \<lparr> item_id = (if in_id item = [] then fresh else in_id item),
           productId = in_productId item,
           product = prod,
           quantity = in_quantity item,
           unitprice = in_unitprice item,
           taxrate = in_taxrate item,
           discount = in_discount item,
           totalExcl = tExcl,
           totalTax = tTax,
           item_total = tot,
           item_unit = (case prod of None \<Rightarrow> ''Unit''
                        | Some p \<Rightarrow> if product_unit p = [] then ''Unit'' else product_unit p) \<rparr>)"

text \<open>
  The item computation of \<^verbatim>\<open>updateProformaMutation\<close> in the proforma detail page
  (src/unnamed/part_003, lines 294-310; \<^verbatim>\<open>calculateTotals\<close>, lines 201-230, uses the same
  expressions): the discount is an amount. The stored item keeps its other fields (and gets
  a copy of the discount under the key tdiscount, which the item type does not have). On a
  number, \<^verbatim>\<open>x || 0\<close> is x.
\<close>

definition processedItem :: "InvoiceItem \<Rightarrow> InvoiceItem" where
  "processedItem item =
     (let tExcl = (quantity item * unitprice item) - discount item;
          tTax = tExcl * (taxrate item / 100);
          tot = tExcl + tTax
      in item \<lparr> totalExcl := tExcl, totalTax := tTax, item_total := tot \<rparr>)"

text \<open>
  \<^verbatim>\<open>calculateTotals\<close> of the same page (lines 201-230): the totals shown while the form
  is edited. An item without a product is skipped.
\<close>

record Totals =
  t_totaldiscount :: real
  t_subtotal :: real
  t_taxTotal :: real
  t_stampTax :: real
  t_total :: real

definition calculateTotals :: "InvoiceItem list \<Rightarrow> string \<Rightarrow> Totals" where
  "calculateTotals its paymentType =
     (let (sub, taxTot, totalDiscount) =
            foldl (\<lambda>(sub, taxTot, totalDiscount) item.
                     if productId item = [] then (sub, taxTot, totalDiscount)
                     else (let itemSubtotal = (quantity item * unitprice item) - discount item;
                               itemTax = itemSubtotal * (taxrate item / 100)
                           in (sub + itemSubtotal, taxTot + itemTax,
                               totalDiscount + discount item)))
                  (0, 0, 0) its;
          stampTax = calculateStampTax paymentType sub
      in \<lparr> t_totaldiscount = totalDiscount, t_subtotal = sub, t_taxTotal = taxTot,
           t_stampTax = stampTax, t_total = sub + taxTot + stampTax \<rparr>)"

text \<open>
  \<^verbatim>\<open>updateItemProduct\<close> of the same page (src/unnamed/part_003, lines 260-278): choosing
  a product for the item at \<open>index\<close> recomputes the item with the discount as a percentage.
  Nothing happens when the product is unknown.
\<close>

definition updateItemProduct :: "Product list \<Rightarrow> InvoiceItem list \<Rightarrow> nat \<Rightarrow> string \<Rightarrow> InvoiceItem list" where
  "updateItemProduct products its index pid =
     (case find_product products pid of
        None \<Rightarrow> its
      | Some p \<Rightarrow>
          (if index < length its then
             its[index := (its ! index)
               \<lparr> productId := pid,
                 unitprice := product_unitprice p,
                 item_unit := product_unit p,
                 taxrate := product_taxrate p,
                 product := Some p,
                 totalExcl := quantity (its ! index) * product_unitprice p
                                * (1 - discount (its ! index) / 100),
                 totalTax := quantity (its ! index) * product_unitprice p
                                * (1 - discount (its ! index) / 100) * (product_taxrate p / 100),
                 item_total := quantity (its ! index) * product_unitprice p
                                * (1 - discount (its ! index) / 100) * (1 + product_taxrate p / 100) \<rparr>]
           else its))"

text \<open>
  Out of range, \<^verbatim>\<open>items[index].quantity\<close> throws before the form is written, so the items
  stay as they are.
\<close>

section \<open>Creating a final invoice (NewFinalInvoice.tsx)\<close>

text \<open>The form data (\<^verbatim>\<open>finalInvoiceSchema\<close>).\<close>

record FormData =
  f_clientid :: string
  f_issuedate :: string
  f_notes :: "string option"
  f_items :: "ItemInput list"
  f_payment_type :: "string option"
  f_bc :: "string option"

text \<open>
  What the mutation reads from outside: the product list, the identifiers that
  \<^verbatim>\<open>uuidv4()\<close> gives (the k-th one for the k-th item, and one for the invoice), the result
  of the \<^verbatim>\<open>generate_invoice_number\<close> call (\<open>None\<close> when it fails), \<^verbatim>\<open>Date.now()\<close>
  in digits, the signed-in user and the clock.
\<close>

record Env =
  env_products :: "Product list"
  env_uuidv4 :: "nat \<Rightarrow> string"
  env_invoiceId :: string
  env_generatedNumber :: "string option"
  env_dateNow :: string
  env_userId :: "string option"
  env_nowIso :: string
  env_today :: string

definition invoiceNumber :: "Env \<Rightarrow> string" where
  "invoiceNumber env =
     (case env_generatedNumber env of
        None \<Rightarrow> '' FIN-'' @ env_dateNow env @ '' (facture D'avoir)''
      | Some generatedNumber \<Rightarrow> '' '' @ generatedNumber @ '' (facture D'avoir)'')"

definition calculatedItems :: "Env \<Rightarrow> ItemInput list \<Rightarrow> InvoiceItem list" where
  "calculatedItems env its =
     map (\<lambda>(k, item). calculatedItem (env_products env) (env_uuidv4 env k) item) (enumerate 0 its)"

text \<open>\<^verbatim>\<open>mutationFn\<close> of \<^verbatim>\<open>createInvoiceMutation\<close> (lines 145-217): the invoice it hands to the datastore.\<close>

definition createInvoice :: "Env \<Rightarrow> FormData \<Rightarrow> FinalInvoice" where
  "createInvoice env data =
     (let cItems = calculatedItems env (f_items data);
          sub = foldl (\<lambda>sum item. sum + totalExcl item) 0 cItems;
          taxTotal = foldl (\<lambda>sum item. sum + totalTax item) 0 cItems;
          stampTax = calculateStampTax (or_empty (f_payment_type data)) sub;
          tot = sub + taxTotal + stampTax
      in \<lparr> invoice_id = env_invoiceId env,
           number = invoiceNumber env,
           clientid = f_clientid data,
           issuedate = f_issuedate data,
           inv_notes = or_empty (f_notes data),
           subtotal = sub,
           taxtotal = taxTotal,
           total = tot,
           status = NonPaye,
           created_by_userid = or_empty (env_userId env),
           createdat = env_nowIso env,
           updatedat = env_nowIso env,
           payment_type = f_payment_type data,
           stamp_tax = stampTax,
           bc = f_bc data,
           amount_paid = Some 0,
           client_debt = Some tot,
           items = cItems,
           payment_date = None,
           paymentdate = None,
           proformaId = None \<rparr>)"

text \<open>
  The form filled from a source proforma (the effect at lines 124-143), which the user
  then submits through \<open>createInvoice\<close>.
\<close>

definition formFromProforma :: "Env \<Rightarrow> ProformaInvoice \<Rightarrow> FormData" where
  "formFromProforma env sourceProforma =
     \<lparr> f_clientid = pf_clientid sourceProforma,
       f_issuedate = env_today env,
       f_notes = Some (or_empty (pf_notes sourceProforma)),
       f_items = map (\<lambda>(k, item).
                   \<lparr> in_id = env_uuidv4 env k,
                     in_productId = productId item,
                     in_quantity = quantity item,
                     in_unitprice = unitprice item,
                     in_taxrate = taxrate item,
                     in_discount = discount item \<rparr>) (enumerate 0 (pf_items sourceProforma)),
       f_payment_type = Some (or_empty (pf_payment_type sourceProforma)),
       f_bc = Some (or_empty (pf_bc sourceProforma)) \<rparr>"

section \<open>The final invoice detail page (src/unnamed/part_002)\<close>

text \<open>\<^verbatim>\<open>payments.reduce((sum, payment) => sum + (payment.amount || 0), 0)\<close>.\<close>

definition totalPaid :: "InvoicePayment list \<Rightarrow> real" where
  "totalPaid ps = foldl (\<lambda>sum payment. sum + amount payment) 0 ps"

text \<open>
  The payment summary (the effect at lines 134-153): the stored amounts when the invoice
  has both, the amounts computed from the payments otherwise. The pair is
  (\<open>amountPaid\<close>, \<open>clientDebt\<close>).
\<close>

definition paymentSummary :: "FinalInvoice \<Rightarrow> InvoicePayment list \<Rightarrow> real \<times> real" where
  "paymentSummary fi ps =
     (case (amount_paid fi, client_debt fi) of
        (Some a, Some d) \<Rightarrow> (a, d)
      | _ \<Rightarrow> (totalPaid ps, max 0 (total fi - totalPaid ps)))"

text \<open>\<^verbatim>\<open>computedStatus\<close> (lines 397-409), from the amount paid, the total and the stored status.\<close>

definition computedStatus :: "real \<Rightarrow> real \<Rightarrow> string \<Rightarrow> string" where
  "computedStatus amountPaid tot stored =
     (if amountPaid \<ge> tot then ''paid''
      else if amountPaid > 0 then ''partially_paid''
      else if stored \<noteq> ''cancelled'' \<and> stored \<noteq> ''credited'' then ''unpaid''
      else stored)"

definition displayStatus :: "FinalInvoice \<Rightarrow> InvoicePayment list \<Rightarrow> string" where
  "displayStatus fi ps = computedStatus (fst (paymentSummary fi ps)) (total fi) (status fi)"

text \<open>The conditions under which the page offers its actions (lines 914-1042).\<close>

definition showMarkPaid :: "bool \<Rightarrow> FinalInvoice \<Rightarrow> InvoicePayment list \<Rightarrow> bool" where
  "showMarkPaid canEdit fi ps = (displayStatus fi ps = ''unpaid'' \<and> canEdit)"

definition showAddPayment :: "bool \<Rightarrow> FinalInvoice \<Rightarrow> InvoicePayment list \<Rightarrow> bool" where
  "showAddPayment canEdit fi ps =
     (displayStatus fi ps \<noteq> ''cancelled'' \<and> displayStatus fi ps \<noteq> ''credited'' \<and> canEdit
      \<and> snd (paymentSummary fi ps) > 0)"

definition showCancel :: "bool \<Rightarrow> FinalInvoice \<Rightarrow> InvoicePayment list \<Rightarrow> bool" where
  "showCancel canEdit fi ps = (displayStatus fi ps = ''unpaid'' \<and> canEdit)"

definition showDelete :: "bool \<Rightarrow> FinalInvoice \<Rightarrow> InvoicePayment list \<Rightarrow> bool" where
  "showDelete canEdit fi ps = (canEdit \<and> displayStatus fi ps = ''unpaid'')"

definition showRevert :: "bool \<Rightarrow> FinalInvoice \<Rightarrow> InvoicePayment list \<Rightarrow> bool" where
  "showRevert canEdit fi ps =
     ((displayStatus fi ps = ''paid'' \<or> displayStatus fi ps = ''partially_paid''
       \<or> displayStatus fi ps = ''cancelled'') \<and> canEdit)"

text \<open>
  The object sent to the datastore by a status change. A field that is \<open>None\<close> is absent
  from the object; \<open>u_paymentdate = Some None\<close> is the key \<^verbatim>\<open>paymentdate: null\<close>.
\<close>

record UpdateData =
  u_status :: string
  u_payment_date :: "string option"
  u_amount_paid :: "real option"
  u_client_debt :: "real option"
  u_paymentdate :: "string option option"

text \<open>The second argument of \<^verbatim>\<open>handleUpdateStatus\<close>; its default \<^verbatim>\<open>{}\<close> has no field.\<close>

record AdditionalData =
  a_payment_date :: "string option"
  a_amount_paid :: "real option"
  a_client_debt :: "real option"

definition noAdditionalData :: AdditionalData where
  "noAdditionalData = \<lparr> a_payment_date = None, a_amount_paid = None, a_client_debt = None \<rparr>"

text \<open>\<^verbatim>\<open>!additionalData.amount_paid\<close>: the field is absent or 0.\<close>

definition falsy_number :: "real option \<Rightarrow> bool" where
  "falsy_number x = (case x of None \<Rightarrow> True | Some v \<Rightarrow> v = 0)"

text \<open>
  \<^verbatim>\<open>handleUpdateStatus\<close> (lines 251-289). It returns without a request (\<open>None\<close>) when the
  page has no id or no invoice; otherwise the result is the object given to
  \<^verbatim>\<open>statusUpdateMutation.mutate\<close>.
\<close>

definition handleUpdateStatus ::
  "string option \<Rightarrow> FinalInvoice option \<Rightarrow> InvoicePayment list \<Rightarrow> string \<Rightarrow> AdditionalData
   \<Rightarrow> UpdateData option" where
  "handleUpdateStatus pid invoice ps st additionalData =
     (if \<not> truthy pid then None
      else case invoice of
        None \<Rightarrow> None
      | Some fi \<Rightarrow>
          (let updateData0 = \<lparr> u_status = st,
                               u_payment_date = a_payment_date additionalData,
                               u_amount_paid = a_amount_paid additionalData,
                               u_client_debt = a_client_debt additionalData,
                               u_paymentdate = None \<rparr>;
               updateData1 =
                 (if st = ''paid'' \<and> falsy_number (a_amount_paid additionalData)
                  then updateData0 \<lparr> u_amount_paid := Some (total fi), u_client_debt := Some 0 \<rparr>
                  else updateData0);
               updateData2 =
                 (if st = ''unpaid'' then
                    (if totalPaid ps > 0
                     then updateData1 \<lparr> u_amount_paid := Some (totalPaid ps),
                                        u_client_debt := Some (max 0 (total fi - totalPaid ps)) \<rparr>
                     else updateData1 \<lparr> u_amount_paid := Some 0,
                                        u_client_debt := Some (total fi),
                                        u_paymentdate := Some None \<rparr>)
                  else updateData1)
           in Some updateData2))"

text \<open>\<^verbatim>\<open>handleMarkAsPaid\<close> (lines 292-301); \<open>today\<close> is the current date.\<close>

definition handleMarkAsPaid ::
  "string \<Rightarrow> string option \<Rightarrow> FinalInvoice option \<Rightarrow> InvoicePayment list \<Rightarrow> UpdateData option" where
  "handleMarkAsPaid today pid invoice ps =
     (case invoice of
        None \<Rightarrow> None
      | Some fi \<Rightarrow>
          handleUpdateStatus pid invoice ps ''paid''
            \<lparr> a_payment_date = Some today, a_amount_paid = Some (total fi),
              a_client_debt = Some 0 \<rparr>)"

text \<open>
  The action of the mark-as-paid dialog (lines 942-957), which builds its object itself.
\<close>

definition markPaidDialogData :: "string \<Rightarrow> FinalInvoice \<Rightarrow> UpdateData" where
  "markPaidDialogData today fi =
     \<lparr> u_status = ''paid'', u_payment_date = Some today, u_amount_paid = Some (total fi),
       u_client_debt = Some 0, u_paymentdate = None \<rparr>"

text \<open>
  Modelled from the spec: \<^verbatim>\<open>updateFinalInvoice\<close> (integrations/supabase/client) is not
  among the sources. By the spec, mutations persist through direct datastore calls and a
  status transition sets the fields it names; so the update writes the fields present in
  the object to the stored invoice and leaves every other field, and the payment rows, as
  they are.
\<close>

definition updateFinalInvoice :: "UpdateData \<Rightarrow> FinalInvoice \<Rightarrow> FinalInvoice" where
  "updateFinalInvoice d fi =
     fi \<lparr> status := u_status d,
          payment_date := (case u_payment_date d of None \<Rightarrow> payment_date fi | Some v \<Rightarrow> Some v),
          amount_paid := (case u_amount_paid d of None \<Rightarrow> amount_paid fi | Some v \<Rightarrow> Some v),
          client_debt := (case u_client_debt d of None \<Rightarrow> client_debt fi | Some v \<Rightarrow> Some v),
          paymentdate := (case u_paymentdate d of None \<Rightarrow> paymentdate fi | Some v \<Rightarrow> v) \<rparr>"

text \<open>
  The page: the id of the route, the invoice the query returned and the payment rows of
  that invoice. A successful mutation is followed by a refetch, so the page then holds the
  updated invoice.
\<close>

record DetailPage =
  page_id :: "string option"
  invoice :: "FinalInvoice option"
  payments :: "InvoicePayment list"

definition mutate :: "UpdateData option \<Rightarrow> DetailPage \<Rightarrow> DetailPage" where
  "mutate d page =
     (case d of
        None \<Rightarrow> page
      | Some u \<Rightarrow> page \<lparr> invoice := map_option (updateFinalInvoice u) (invoice page) \<rparr>)"

text \<open>The revert action: \<^verbatim>\<open>handleUpdateStatus('unpaid')\<close> (line 1064).\<close>

definition revertToUnpaid :: "DetailPage \<Rightarrow> DetailPage" where
  "revertToUnpaid page =
     mutate (handleUpdateStatus (page_id page) (invoice page) (payments page) ''unpaid''
               noAdditionalData) page"

text \<open>The cancel action: \<^verbatim>\<open>handleUpdateStatus('cancelled')\<close> (line 1006).\<close>

definition cancelInvoice :: "DetailPage \<Rightarrow> DetailPage" where
  "cancelInvoice page =
     mutate (handleUpdateStatus (page_id page) (invoice page) (payments page) ''cancelled''
               noAdditionalData) page"

text \<open>Mark as paid, through the handler and through the dialog.\<close>

definition markAsPaid :: "string \<Rightarrow> DetailPage \<Rightarrow> DetailPage" where
  "markAsPaid today page =
     mutate (handleMarkAsPaid today (page_id page) (invoice page) (payments page)) page"

definition markPaidDialog :: "string \<Rightarrow> DetailPage \<Rightarrow> DetailPage" where
  "markPaidDialog today page =
     mutate (map_option (markPaidDialogData today) (invoice page)) page"

text \<open>
  Modelled from the spec: the recomputation of the aggregates of an invoice that follows
  the insertion or removal of a payment row is not among the sources. By the spec (3, 4.3)
  the ledger derives the amount paid and the remaining debt from the payment rows:
  amount_paid is the sum of the payments, and client_debt the remaining balance
  max(0, total - sum of payments) (4.2), so that a payment of 400 on a total of 1000 gives
  amount_paid 400 and client_debt 600, and a further payment of 600 gives 1000 and 0 (8).
  The stored status is left alone; the displayed status follows from the stored amounts.
\<close>

definition recomputeAggregates :: "InvoicePayment list \<Rightarrow> FinalInvoice \<Rightarrow> FinalInvoice" where
  "recomputeAggregates ps fi =
     fi \<lparr> amount_paid := Some (totalPaid ps),
          client_debt := Some (max 0 (total fi - totalPaid ps)) \<rparr>"



text \<open>The stored amounts add up to the total.\<close>

definition balanced :: "FinalInvoice \<Rightarrow> bool" where
  "balanced fi =
     (case (amount_paid fi, client_debt fi) of
        (Some a, Some d) \<Rightarrow> a + d = total fi
      | _ \<Rightarrow> False)"

section \<open>The payment form (src/unnamed/part_007)\<close>


record PaymentValues =
  v_amount :: real
  v_payment_date :: string
  v_paymentMethod :: string
  v_reference :: "string option"
  v_notes :: "string option"

text \<open>
  \<^verbatim>\<open>paymentFormSchema\<close> (lines 28-34): the messages of the fields that fail, or the values.
\<close>

definition paymentFormSchema :: "PaymentValues \<Rightarrow> string list + PaymentValues" where
  "paymentFormSchema v =
     (let issues =
            (if 0 < v_amount v then [] else [''Amount must be positive''])
          @ (if 1 \<le> length (v_payment_date v) then [] else [''Payment date is required''])
          @ (if 1 \<le> length (v_paymentMethod v) then [] else [''Payment method is required''])
      in if issues = [] then Inr v else Inl issues)"


section \<open>Converting a proforma (src/unnamed/part_003)\<close>

text \<open>The condition under which the proforma page offers the conversion (line 1184).\<close>

definition showConvert :: "bool \<Rightarrow> ProformaInvoice \<Rightarrow> bool" where
  "showConvert canConvert proforma =
     (pf_status proforma = approved \<and> \<not> truthy (finalInvoiceId proforma) \<and> canConvert)"

text \<open>The proforma of the page and the final invoices of the datastore.\<close>

record Store =
  proforma :: ProformaInvoice
  finals :: "FinalInvoice list"

datatype convert_error = ConversionNotAllowed

text \<open>
  Modelled from the spec: \<^verbatim>\<open>mockDataService.convertProformaToFinal\<close> is not among the
  sources. By the spec (4.4) it is allowed only when the status of the proforma is approved
  and there is no existing finalInvoiceId; it produces a new final invoice copying client,
  items (with recalculated totals), notes, payment_type and bc, unpaid, with amount_paid 0
  and client_debt the total, and sets the finalInvoiceId of the proforma to the new id.
  The new invoice is built as the creation form builds it.
\<close>

definition convertProformaToFinal :: "Env \<Rightarrow> Store \<Rightarrow> convert_error + Store" where
  "convertProformaToFinal env st =
     (if pf_status (proforma st) = approved \<and> finalInvoiceId (proforma st) = None
      then Inr \<lparr> proforma = (proforma st) \<lparr> finalInvoiceId := Some (env_invoiceId env) \<rparr>,
                 finals = finals st
                   @ [(createInvoice env (formFromProforma env (proforma st)))
                        \<lparr> proformaId := Some (pf_id (proforma st)) \<rparr>] \<rparr>
      else Inl ConversionNotAllowed)"

text \<open>
  \<^verbatim>\<open>handleConvertToFinal\<close> behind its button (lines 448-451 and 1184-1218): the click
  exists only where the button is shown; a failed call leaves the store as it is (the page
  shows an error notice).
\<close>

definition clickConvert :: "bool \<Rightarrow> string option \<Rightarrow> Env \<Rightarrow> Store \<Rightarrow> Store" where
  "clickConvert canConvert pid env st =
     (if showConvert canConvert (proforma st) \<and> truthy pid
      then (case convertProformaToFinal env st of Inl e \<Rightarrow> st | Inr st' \<Rightarrow> st')
      else st)"



section \<open>Sample data\<close>

text \<open>A stored invoice with the given total, amounts and status, and a payment row.\<close>

definition sampleInvoice :: "real \<Rightarrow> real \<Rightarrow> real \<Rightarrow> string \<Rightarrow> FinalInvoice" where
  "sampleInvoice tot paid debt st =
     \<lparr> invoice_id = ''inv-1'', number = '' F-0001 (facture D'avoir)'', clientid = ''client-1'',
       issuedate = ''2025-01-15'', inv_notes = [], subtotal = tot, taxtotal = 0, total = tot,
       status = st, created_by_userid = ''user-1'', createdat = ''2025-01-15T08:00:00.000Z'',
       updatedat = ''2025-01-15T08:00:00.000Z'', payment_type = Some ''cheque'', stamp_tax = 0,
       bc = None, amount_paid = Some paid, client_debt = Some debt, items = [],
       payment_date = None, paymentdate = None, proformaId = None \<rparr>"

definition samplePayment :: "string \<Rightarrow> real \<Rightarrow> InvoicePayment" where
  "samplePayment pid a =
     \<lparr> payment_id = pid, invoiceId = ''inv-1'', amount = a, pay_date = ''2025-02-01'',
       paymentMethod = ''bank_transfer'', reference = [], pay_notes = None \<rparr>"

definition samplePage :: "FinalInvoice \<Rightarrow> InvoicePayment list \<Rightarrow> DetailPage" where
  "samplePage fi ps = \<lparr> page_id = Some ''inv-1'', invoice = Some fi, payments = ps \<rparr>"

definition sampleProduct :: Product where
  "sampleProduct =
     \<lparr> product_id = ''prod-1'', product_code = ''P-001'', product_name = ''Ciment'',
       product_unitprice = 100, product_taxrate = 19, product_stockquantity = 50,
       product_unit = ''sac'' \<rparr>"

definition sampleItem :: InvoiceItem where
  "sampleItem =
     \<lparr> item_id = ''item-1'', productId = ''prod-1'', product = None, quantity = 2,
       unitprice = 100, taxrate = 19, discount = 10, totalExcl = 0, totalTax = 0,
       item_total = 0, item_unit = ''sac'' \<rparr>"

definition sampleFormData :: FormData where
  "sampleFormData =
     \<lparr> f_clientid = ''client-7'', f_issuedate = ''2025-01-15'',
       f_notes = Some ''Livraison lundi'',
       f_items = [\<lparr> in_id = ''item-1'', in_productId = ''prod-1'', in_quantity = 10,
                    in_unitprice = 1000, in_taxrate = 19, in_discount = 0 \<rparr>],
       f_payment_type = Some ''cash'', f_bc = Some ''BC-7'' \<rparr>"

definition sampleSourceProforma :: ProformaInvoice where
  "sampleSourceProforma =
     \<lparr> pf_id = ''pro-2'', pf_clientid = ''client-7'', pf_notes = Some ''Livraison lundi'',
       pf_items = [sampleItem], pf_status = approved, finalInvoiceId = None,
       pf_payment_type = Some ''cash'', pf_bc = Some ''BC-7'' \<rparr>"


definition sampleProforma :: "proforma_status \<Rightarrow> string option \<Rightarrow> ProformaInvoice" where
  "sampleProforma st fid =
     \<lparr> pf_id = ''pro-1'', pf_clientid = ''client-1'', pf_notes = None, pf_items = [],
       pf_status = st, finalInvoiceId = fid, pf_payment_type = Some ''cash'', pf_bc = None \<rparr>"

definition sampleEnv :: "string \<Rightarrow> Env" where
  "sampleEnv newId =
     \<lparr> env_products = [], env_uuidv4 = (\<lambda>k. ''item-'' @ replicate k CHR ''i''),
       env_invoiceId = newId, env_generatedNumber = Some ''F-0001'',
       env_dateNow = ''1736928000000'', env_userId = Some ''user-1'',
       env_nowIso = ''2025-01-15T08:00:00.000Z'', env_today = ''2025-01-15'' \<rparr>"

section \<open>Properties\<close>

subsection \<open>Auxiliary facts\<close>

lemma foldl_add_sum_list:
  "foldl (\<lambda>sum x. sum + f x) a xs = a + sum_list (map f xs)"
  by (induction xs arbitrary: a) (simp_all add: add.assoc)

lemma map_enumerate_indep:
  assumes "\<And>k x. g (f k x) = h x"
  shows "map g (map (\<lambda>(k, x). f k x) (enumerate n xs)) = map h xs"
  using assms by (induction xs arbitrary: n) simp_all

lemma totalPaid_sum_list: "totalPaid ps = sum_list (map amount ps)"
  by (simp add: totalPaid_def foldl_add_sum_list)

lemma totalPaid_pos_iff:
  assumes "\<forall>p\<in>set ps. 0 < amount p"
  shows "(0 < totalPaid ps) = (ps \<noteq> [])"
proof (cases ps)
  case Nil
  then show ?thesis by (simp add: totalPaid_sum_list)
next
  case (Cons p qs)
  have "0 \<le> sum_list (map amount qs)"
    using assms Cons by (intro sum_list_nonneg) (auto intro: less_imp_le)
  moreover have "0 < amount p" using assms Cons by simp
  ultimately show ?thesis using Cons by (simp add: totalPaid_sum_list)
qed

lemma calculatedItems_fields:
  "map productId (calculatedItems env its) = map in_productId its"
  "map quantity (calculatedItems env its) = map in_quantity its"
  "map unitprice (calculatedItems env its) = map in_unitprice its"
  "map taxrate (calculatedItems env its) = map in_taxrate its"
  "map discount (calculatedItems env its) = map in_discount its"
  "map totalExcl (calculatedItems env its) =
     map (\<lambda>i. in_quantity i * in_unitprice i * (1 - in_discount i / 100)) its"
  unfolding calculatedItems_def
  by (rule map_enumerate_indep, simp add: calculatedItem_def Let_def)+

lemma formFromProforma_items:
  "map in_productId (f_items (formFromProforma env pf)) = map productId (pf_items pf)"
  "map in_quantity (f_items (formFromProforma env pf)) = map quantity (pf_items pf)"
  "map in_unitprice (f_items (formFromProforma env pf)) = map unitprice (pf_items pf)"
  "map in_taxrate (f_items (formFromProforma env pf)) = map taxrate (pf_items pf)"
  "map in_discount (f_items (formFromProforma env pf)) = map discount (pf_items pf)"
proof -
  let ?f = "\<lambda>k item. \<lparr> in_id = env_uuidv4 env k, in_productId = productId item,
              in_quantity = quantity item, in_unitprice = unitprice item,
              in_taxrate = taxrate item, in_discount = discount item \<rparr>"
  have its: "f_items (formFromProforma env pf) = map (\<lambda>(k, x). ?f k x) (enumerate 0 (pf_items pf))"
    by (simp add: formFromProforma_def)
  show "map in_productId (f_items (formFromProforma env pf)) = map productId (pf_items pf)"
    unfolding its by (rule map_enumerate_indep) simp
  show "map in_quantity (f_items (formFromProforma env pf)) = map quantity (pf_items pf)"
    unfolding its by (rule map_enumerate_indep) simp
  show "map in_unitprice (f_items (formFromProforma env pf)) = map unitprice (pf_items pf)"
    unfolding its by (rule map_enumerate_indep) simp
  show "map in_taxrate (f_items (formFromProforma env pf)) = map taxrate (pf_items pf)"
    unfolding its by (rule map_enumerate_indep) simp
  show "map in_discount (f_items (formFromProforma env pf)) = map discount (pf_items pf)"
    unfolding its by (rule map_enumerate_indep) simp
qed

lemma revert_data:
  assumes "truthy pid"
  shows "handleUpdateStatus pid (Some fi) ps ''unpaid'' noAdditionalData
     = Some (if 0 < totalPaid ps
             then \<lparr> u_status = ''unpaid'', u_payment_date = None,
                    u_amount_paid = Some (totalPaid ps),
                    u_client_debt = Some (max 0 (total fi - totalPaid ps)),
                    u_paymentdate = None \<rparr>
             else \<lparr> u_status = ''unpaid'', u_payment_date = None, u_amount_paid = Some 0,
                    u_client_debt = Some (total fi), u_paymentdate = Some None \<rparr>)"
  using assms by (simp add: handleUpdateStatus_def noAdditionalData_def Let_def)

lemma revert_invoice:
  assumes "truthy (page_id page)" and "invoice page = Some fi"
  shows "invoice (revertToUnpaid page)
     = Some (if 0 < totalPaid (payments page)
             then fi \<lparr> status := ''unpaid'',
                       amount_paid := Some (totalPaid (payments page)),
                       client_debt := Some (max 0 (total fi - totalPaid (payments page))) \<rparr>
             else fi \<lparr> status := ''unpaid'', amount_paid := Some 0,
                       client_debt := Some (total fi), paymentdate := None \<rparr>)"
  using assms
  by (simp add: revertToUnpaid_def revert_data mutate_def updateFinalInvoice_def)

lemma markAsPaid_data:
  assumes "truthy pid"
  shows "handleMarkAsPaid today pid (Some fi) ps = Some (markPaidDialogData today fi)"
  using assms
  by (simp add: handleMarkAsPaid_def handleUpdateStatus_def markPaidDialogData_def Let_def
        falsy_number_def)

lemma markPaid_invoice:
  "updateFinalInvoice (markPaidDialogData today fi) fi
     = fi \<lparr> status := ''paid'', payment_date := Some today, amount_paid := Some (total fi),
            client_debt := Some 0 \<rparr>"
  by (simp add: updateFinalInvoice_def markPaidDialogData_def)

lemma markAsPaid_eq_dialog:
  assumes "truthy (page_id p)"
  shows "markAsPaid d p = markPaidDialog d p"
proof (cases "invoice p")
  case None
  then show ?thesis by (simp add: markAsPaid_def markPaidDialog_def handleMarkAsPaid_def)
next
  case (Some g)
  then show ?thesis
    using assms by (simp add: markAsPaid_def markPaidDialog_def markAsPaid_data)
qed

lemma markPaidDialog_step:
  assumes "invoice p = Some g"
  shows "markPaidDialog d p
     = p \<lparr> invoice := Some (g \<lparr> status := ''paid'', payment_date := Some d,
                               amount_paid := Some (total g), client_debt := Some 0 \<rparr>) \<rparr>"
  using assms by (simp add: markPaidDialog_def mutate_def markPaid_invoice)

lemma markPaidDialog_page_id: "page_id (markPaidDialog d p) = page_id p"
  by (cases "invoice p") (simp_all add: markPaidDialog_def mutate_def)





lemma paymentFormSchema_accepts:
  "paymentFormSchema v = Inr v \<longleftrightarrow>
     0 < v_amount v \<and> v_payment_date v \<noteq> [] \<and> v_paymentMethod v \<noteq> []"
  by (auto simp add: paymentFormSchema_def Let_def Suc_le_eq)

subsection \<open>Stamp tax\<close>

text \<open>
  C3. The stamp tax is 0 for every payment type other than "cash"; for "cash" it is 2% of
  the subtotal above 100000, 1.5% above 30000 up to 100000, 1% above 300 up to 30000, and 0
  up to 300. The thresholds are exclusive lower bounds, the highest one tried first. This
  holds for every subtotal, negative ones included.
\<close>

theorem calculateStampTax_cases:
  "(paymentType \<noteq> ''cash'' \<longrightarrow> calculateStampTax paymentType sub = 0) \<and>
   (100000 < sub \<longrightarrow> calculateStampTax ''cash'' sub = sub * 0.02) \<and>
   (30000 < sub \<and> sub \<le> 100000 \<longrightarrow> calculateStampTax ''cash'' sub = sub * 0.015) \<and>
   (300 < sub \<and> sub \<le> 30000 \<longrightarrow> calculateStampTax ''cash'' sub = sub * 0.01) \<and>
   (sub \<le> 300 \<longrightarrow> calculateStampTax ''cash'' sub = 0)"
  by (simp add: calculateStampTax_def)

theorem calculateStampTax_cases_witness:
  "calculateStampTax ''cheque'' 150000 = 0 \<and>
   calculateStampTax ''cash'' 150000 = 3000 \<and>
   calculateStampTax ''cash'' 100000 = 1500 \<and>
   calculateStampTax ''cash'' 30000 = 300 \<and>
   calculateStampTax ''cash'' 300 = 0"
  using calculateStampTax_cases [of "''cheque''" 150000]
        calculateStampTax_cases [of "''cash''" 100000]
        calculateStampTax_cases [of "''cash''" 30000]
        calculateStampTax_cases [of "''cash''" 300]
  by simp

subsection \<open>The two discount formulas\<close>

text \<open>
  C5. The creation form (\<open>calculatedItem\<close>) and the product choice of the proforma page
  (\<open>updateItemProduct\<close>) compute the total before tax of an item as
  quantity * unitprice * (1 - discount / 100), while the totals and the saved items of the
  proforma page (\<open>calculateTotals\<close>, \<open>processedItem\<close>) use (quantity * unitprice) - discount,
  and the two differ on some item: with quantity 2, unit price 100 and discount 10 the
  first gives 180 and the second 190.
\<close>

theorem discount_formulas_differ:
  "totalExcl (calculatedItem products fresh i)
     = in_quantity i * in_unitprice i * (1 - in_discount i / 100) \<and>
   (index < length its \<and> find_product products pid = Some p \<longrightarrow>
      totalExcl (updateItemProduct products its index pid ! index)
        = quantity (its ! index) * product_unitprice p * (1 - discount (its ! index) / 100)) \<and>
   totalExcl (processedItem it) = (quantity it * unitprice it) - discount it \<and>
   (productId it \<noteq> [] \<longrightarrow>
      t_subtotal (calculateTotals [it] paymentType) = (quantity it * unitprice it) - discount it) \<and>
   (\<exists>i' it'. in_quantity i' = quantity it' \<and> in_unitprice i' = unitprice it'
       \<and> in_discount i' = discount it' \<and> in_productId i' = productId it'
       \<and> totalExcl (calculatedItem products fresh i') \<noteq> totalExcl (processedItem it')
       \<and> totalExcl (calculatedItem products fresh i')
            \<noteq> t_subtotal (calculateTotals [it'] paymentType))"
proof -
  let ?i = "\<lparr> in_id = ''item-1'', in_productId = ''prod-1'', in_quantity = 2,
              in_unitprice = 100, in_taxrate = 19, in_discount = 10 \<rparr>"
  let ?it = "\<lparr> item_id = ''item-1'', productId = ''prod-1'', product = None, quantity = 2,
               unitprice = 100, taxrate = 19, discount = 10, totalExcl = 0, totalTax = 0,
               item_total = 0, item_unit = ''Unit'' \<rparr>"
  have a: "totalExcl (calculatedItem products fresh ?i) = 180"
    by (simp add: calculatedItem_def Let_def)
  have b: "totalExcl (processedItem ?it) = 190"
    by (simp add: processedItem_def Let_def)
  have c: "t_subtotal (calculateTotals [?it] paymentType) = 190"
    by (simp add: calculateTotals_def Let_def)
  have "in_quantity ?i = quantity ?it \<and> in_unitprice ?i = unitprice ?it
       \<and> in_discount ?i = discount ?it \<and> in_productId ?i = productId ?it
       \<and> totalExcl (calculatedItem products fresh ?i) \<noteq> totalExcl (processedItem ?it)
       \<and> totalExcl (calculatedItem products fresh ?i)
            \<noteq> t_subtotal (calculateTotals [?it] paymentType)"
    unfolding a b c by simp
  then have "\<exists>i' it'. in_quantity i' = quantity it' \<and> in_unitprice i' = unitprice it'
       \<and> in_discount i' = discount it' \<and> in_productId i' = productId it'
       \<and> totalExcl (calculatedItem products fresh i') \<noteq> totalExcl (processedItem it')
       \<and> totalExcl (calculatedItem products fresh i')
            \<noteq> t_subtotal (calculateTotals [it'] paymentType)"
    by blast
  moreover have "totalExcl (calculatedItem products fresh i)
     = in_quantity i * in_unitprice i * (1 - in_discount i / 100)"
    by (simp add: calculatedItem_def Let_def)
  moreover have "totalExcl (processedItem it) = (quantity it * unitprice it) - discount it"
    by (simp add: processedItem_def Let_def)
  moreover have "productId it \<noteq> [] \<longrightarrow>
      t_subtotal (calculateTotals [it] paymentType) = (quantity it * unitprice it) - discount it"
    by (simp add: calculateTotals_def Let_def)
  moreover have "index < length its \<and> find_product products pid = Some p \<longrightarrow>
      totalExcl (updateItemProduct products its index pid ! index)
        = quantity (its ! index) * product_unitprice p * (1 - discount (its ! index) / 100)"
    by (simp add: updateItemProduct_def)
  ultimately show ?thesis by blast
qed

theorem discount_formulas_differ_witness:
  "totalExcl (updateItemProduct [sampleProduct] [sampleItem] 0 ''prod-1'' ! 0) = 180 \<and>
   t_subtotal (calculateTotals [sampleItem] ''cheque'') = 190"
proof -
  have h1: "0 < length [sampleItem] \<and> find_product [sampleProduct] ''prod-1'' = Some sampleProduct"
    by (simp add: find_product_def sampleProduct_def)
  have h2: "productId sampleItem \<noteq> []"
    by (simp add: sampleItem_def)
  have v: "quantity ([sampleItem] ! 0) * product_unitprice sampleProduct
             * (1 - discount ([sampleItem] ! 0) / 100) = 180"
    "(quantity sampleItem * unitprice sampleItem) - discount sampleItem = 190"
    by (simp_all add: sampleItem_def sampleProduct_def)
  show ?thesis
    using h1 h2 v
      discount_formulas_differ [where index = 0 and its = "[sampleItem]"
         and products = "[sampleProduct]" and pid = "''prod-1''" and p = sampleProduct
         and it = sampleItem and paymentType = "''cheque''"]
    by simp
qed

subsection \<open>Creating a final invoice\<close>

text \<open>
  C7. The invoice that the creation form hands to the datastore has the unpaid status (the
  value NonPaye of src/types/index.ts, which the detail page displays as unpaid unless the
  total is not positive), amount_paid 0 and client_debt equal to its total, where the total
  is subtotal + taxtotal + stamp tax, the subtotal and the tax total are the sums over the
  items and the stamp tax is computed from the payment type of the form (the empty string
  when absent) and the subtotal. Client, notes, payment_type and bc are those of the form
  (an absent note becomes the empty string); the items keep product, quantity, unit price,
  tax rate and discount, and their totals are computed anew. When the form was filled from
  a proforma, client, notes, payment_type, bc and the items' values are the ones of the
  proforma (an absent notes, payment_type or bc becoming the empty string).
\<close>

theorem createInvoice_unpaid_full_debt:
  "status (createInvoice env data) = NonPaye \<and>
   amount_paid (createInvoice env data) = Some 0 \<and>
   client_debt (createInvoice env data) = Some (total (createInvoice env data)) \<and>
   total (createInvoice env data)
     = subtotal (createInvoice env data) + taxtotal (createInvoice env data)
       + stamp_tax (createInvoice env data) \<and>
   subtotal (createInvoice env data) = sum_list (map totalExcl (items (createInvoice env data))) \<and>
   taxtotal (createInvoice env data) = sum_list (map totalTax (items (createInvoice env data))) \<and>
   stamp_tax (createInvoice env data)
     = calculateStampTax (case f_payment_type data of None \<Rightarrow> [] | Some t \<Rightarrow> t)
         (subtotal (createInvoice env data)) \<and>
   displayStatus (createInvoice env data) ps
     = (if total (createInvoice env data) \<le> 0 then ''paid'' else ''unpaid'') \<and>
   clientid (createInvoice env data) = f_clientid data \<and>
   inv_notes (createInvoice env data) = (case f_notes data of None \<Rightarrow> [] | Some n \<Rightarrow> n) \<and>
   (f_notes data = Some n \<longrightarrow> inv_notes (createInvoice env data) = n) \<and>
   payment_type (createInvoice env data) = f_payment_type data \<and>
   bc (createInvoice env data) = f_bc data \<and>
   map productId (items (createInvoice env data)) = map in_productId (f_items data) \<and>
   map quantity (items (createInvoice env data)) = map in_quantity (f_items data) \<and>
   map unitprice (items (createInvoice env data)) = map in_unitprice (f_items data) \<and>
   map taxrate (items (createInvoice env data)) = map in_taxrate (f_items data) \<and>
   map discount (items (createInvoice env data)) = map in_discount (f_items data) \<and>
   map totalExcl (items (createInvoice env data))
     = map (\<lambda>i. in_quantity i * in_unitprice i * (1 - in_discount i / 100)) (f_items data) \<and>
   map totalTax (items (createInvoice env data))
     = map (\<lambda>it. totalExcl it * (taxrate it / 100)) (items (createInvoice env data)) \<and>
   map item_total (items (createInvoice env data))
     = map (\<lambda>it. totalExcl it + totalTax it) (items (createInvoice env data)) \<and>
   clientid (createInvoice env (formFromProforma env pf)) = pf_clientid pf \<and>
   inv_notes (createInvoice env (formFromProforma env pf))
     = (case pf_notes pf of None \<Rightarrow> [] | Some n \<Rightarrow> n) \<and>
   payment_type (createInvoice env (formFromProforma env pf))
     = Some (case pf_payment_type pf of None \<Rightarrow> [] | Some t \<Rightarrow> t) \<and>
   bc (createInvoice env (formFromProforma env pf))
     = Some (case pf_bc pf of None \<Rightarrow> [] | Some c \<Rightarrow> c) \<and>
   (pf_notes pf = Some n' \<longrightarrow> inv_notes (createInvoice env (formFromProforma env pf)) = n') \<and>
   (pf_payment_type pf = Some t' \<longrightarrow>
      payment_type (createInvoice env (formFromProforma env pf)) = Some t' \<and>
      stamp_tax (createInvoice env (formFromProforma env pf))
        = calculateStampTax t' (subtotal (createInvoice env (formFromProforma env pf)))) \<and>
   (pf_bc pf = Some c' \<longrightarrow> bc (createInvoice env (formFromProforma env pf)) = Some c') \<and>
   map productId (items (createInvoice env (formFromProforma env pf))) = map productId (pf_items pf) \<and>
   map quantity (items (createInvoice env (formFromProforma env pf))) = map quantity (pf_items pf) \<and>
   map unitprice (items (createInvoice env (formFromProforma env pf))) = map unitprice (pf_items pf) \<and>
   map taxrate (items (createInvoice env (formFromProforma env pf))) = map taxrate (pf_items pf) \<and>
   map discount (items (createInvoice env (formFromProforma env pf))) = map discount (pf_items pf)"
proof -
  have its: "items (createInvoice env d) = calculatedItems env (f_items d)" for d
    by (simp add: createInvoice_def Let_def)
  have "status (createInvoice env data) = NonPaye"
    and "amount_paid (createInvoice env data) = Some 0"
    and "client_debt (createInvoice env data) = Some (total (createInvoice env data))"
    and "total (createInvoice env data)
     = subtotal (createInvoice env data) + taxtotal (createInvoice env data)
       + stamp_tax (createInvoice env data)"
    and "subtotal (createInvoice env data) = sum_list (map totalExcl (items (createInvoice env data)))"
    and "taxtotal (createInvoice env data) = sum_list (map totalTax (items (createInvoice env data)))"
    and "stamp_tax (createInvoice env data)
     = calculateStampTax (case f_payment_type data of None \<Rightarrow> [] | Some t \<Rightarrow> t)
         (subtotal (createInvoice env data))"
    by (simp_all add: createInvoice_def Let_def foldl_add_sum_list or_empty_def)
  moreover have "displayStatus (createInvoice env data) ps
     = (if total (createInvoice env data) \<le> 0 then ''paid'' else ''unpaid'')"
    by (simp add: displayStatus_def paymentSummary_def computedStatus_def createInvoice_def
          Let_def NonPaye_def)
  moreover have "clientid (createInvoice env data) = f_clientid data"
    and "inv_notes (createInvoice env data) = (case f_notes data of None \<Rightarrow> [] | Some n \<Rightarrow> n)"
    and "f_notes data = Some n \<longrightarrow> inv_notes (createInvoice env data) = n"
    and "payment_type (createInvoice env data) = f_payment_type data"
    and "bc (createInvoice env data) = f_bc data"
    by (simp_all add: createInvoice_def Let_def or_empty_def)
  moreover have "map productId (items (createInvoice env data)) = map in_productId (f_items data)"
    and "map quantity (items (createInvoice env data)) = map in_quantity (f_items data)"
    and "map unitprice (items (createInvoice env data)) = map in_unitprice (f_items data)"
    and "map taxrate (items (createInvoice env data)) = map in_taxrate (f_items data)"
    and "map discount (items (createInvoice env data)) = map in_discount (f_items data)"
    and "map totalExcl (items (createInvoice env data))
     = map (\<lambda>i. in_quantity i * in_unitprice i * (1 - in_discount i / 100)) (f_items data)"
    unfolding its by (rule calculatedItems_fields)+
  moreover have "map totalTax (items (createInvoice env data))
     = map (\<lambda>it. totalExcl it * (taxrate it / 100)) (items (createInvoice env data))"
    unfolding its by (simp add: calculatedItems_def calculatedItem_def Let_def split_def)
  moreover have "map item_total (items (createInvoice env data))
     = map (\<lambda>it. totalExcl it + totalTax it) (items (createInvoice env data))"
    unfolding its by (simp add: calculatedItems_def calculatedItem_def Let_def split_def)
  moreover have "clientid (createInvoice env (formFromProforma env pf)) = pf_clientid pf"
    and "inv_notes (createInvoice env (formFromProforma env pf))
           = (case pf_notes pf of None \<Rightarrow> [] | Some n \<Rightarrow> n)"
    and "payment_type (createInvoice env (formFromProforma env pf))
           = Some (case pf_payment_type pf of None \<Rightarrow> [] | Some t \<Rightarrow> t)"
    and "bc (createInvoice env (formFromProforma env pf))
           = Some (case pf_bc pf of None \<Rightarrow> [] | Some c \<Rightarrow> c)"
    and "pf_notes pf = Some n' \<longrightarrow> inv_notes (createInvoice env (formFromProforma env pf)) = n'"
    and "pf_bc pf = Some c' \<longrightarrow> bc (createInvoice env (formFromProforma env pf)) = Some c'"
    by (simp_all add: createInvoice_def Let_def formFromProforma_def or_empty_def)
  moreover have "pf_payment_type pf = Some t' \<longrightarrow>
      payment_type (createInvoice env (formFromProforma env pf)) = Some t' \<and>
      stamp_tax (createInvoice env (formFromProforma env pf))
        = calculateStampTax t' (subtotal (createInvoice env (formFromProforma env pf)))"
    by (simp add: createInvoice_def Let_def formFromProforma_def or_empty_def)
  moreover have
    "map productId (items (createInvoice env (formFromProforma env pf))) = map productId (pf_items pf)"
    and "map quantity (items (createInvoice env (formFromProforma env pf))) = map quantity (pf_items pf)"
    and "map unitprice (items (createInvoice env (formFromProforma env pf))) = map unitprice (pf_items pf)"
    and "map taxrate (items (createInvoice env (formFromProforma env pf))) = map taxrate (pf_items pf)"
    and "map discount (items (createInvoice env (formFromProforma env pf))) = map discount (pf_items pf)"
    unfolding its calculatedItems_fields by (rule formFromProforma_items)+
  ultimately show ?thesis by (intro conjI)
qed

theorem createInvoice_unpaid_full_debt_witness:
  "f_notes sampleFormData = Some ''Livraison lundi'' \<and>
   status (createInvoice (sampleEnv ''inv-9'') sampleFormData) = ''NonPay'' @ [CHR 0xE9] \<and>
   amount_paid (createInvoice (sampleEnv ''inv-9'') sampleFormData) = Some 0 \<and>
   subtotal (createInvoice (sampleEnv ''inv-9'') sampleFormData) = 10000 \<and>
   taxtotal (createInvoice (sampleEnv ''inv-9'') sampleFormData) = 1900 \<and>
   stamp_tax (createInvoice (sampleEnv ''inv-9'') sampleFormData) = 100 \<and>
   total (createInvoice (sampleEnv ''inv-9'') sampleFormData) = 12000 \<and>
   client_debt (createInvoice (sampleEnv ''inv-9'') sampleFormData) = Some 12000 \<and>
   clientid (createInvoice (sampleEnv ''inv-9'') sampleFormData) = ''client-7'' \<and>
   inv_notes (createInvoice (sampleEnv ''inv-9'') sampleFormData) = ''Livraison lundi'' \<and>
   payment_type (createInvoice (sampleEnv ''inv-9'') sampleFormData) = Some ''cash'' \<and>
   bc (createInvoice (sampleEnv ''inv-9'') sampleFormData) = Some ''BC-7'' \<and>
   inv_notes (createInvoice (sampleEnv ''inv-9'')
      (formFromProforma (sampleEnv ''inv-9'') sampleSourceProforma)) = ''Livraison lundi'' \<and>
   payment_type (createInvoice (sampleEnv ''inv-9'')
      (formFromProforma (sampleEnv ''inv-9'') sampleSourceProforma)) = Some ''cash'' \<and>
   bc (createInvoice (sampleEnv ''inv-9'')
      (formFromProforma (sampleEnv ''inv-9'') sampleSourceProforma)) = Some ''BC-7'' \<and>
   map quantity (items (createInvoice (sampleEnv ''inv-9'')
      (formFromProforma (sampleEnv ''inv-9'') sampleSourceProforma))) = [2] \<and>
   map totalExcl (items (createInvoice (sampleEnv ''inv-9'')
      (formFromProforma (sampleEnv ''inv-9'') sampleSourceProforma))) = [180]"
proof -
  have h: "f_notes sampleFormData = Some ''Livraison lundi''"
    "pf_notes sampleSourceProforma = Some ''Livraison lundi''"
    "pf_payment_type sampleSourceProforma = Some ''cash''"
    "pf_bc sampleSourceProforma = Some ''BC-7''"
    by (simp_all add: sampleFormData_def sampleSourceProforma_def)
  have v: "f_clientid sampleFormData = ''client-7''"
    "f_payment_type sampleFormData = Some ''cash''"
    "f_bc sampleFormData = Some ''BC-7''"
    "pf_items sampleSourceProforma = [sampleItem]"
    by (simp_all add: sampleFormData_def sampleSourceProforma_def)
  have n: "subtotal (createInvoice (sampleEnv ''inv-9'') sampleFormData) = 10000"
    "taxtotal (createInvoice (sampleEnv ''inv-9'') sampleFormData) = 1900"
    "map totalExcl (items (createInvoice (sampleEnv ''inv-9'')
        (formFromProforma (sampleEnv ''inv-9'') sampleSourceProforma))) = [180]"
    by (simp_all add: createInvoice_def calculatedItems_def calculatedItem_def Let_def
          sampleFormData_def sampleSourceProforma_def sampleItem_def formFromProforma_def)
  have q: "map quantity [sampleItem] = [2]"
    by (simp add: sampleItem_def)
  let ?X = "createInvoice (sampleEnv ''inv-9'') sampleFormData"
  let ?Y = "createInvoice (sampleEnv ''inv-9'')
              (formFromProforma (sampleEnv ''inv-9'') sampleSourceProforma)"
  note T = createInvoice_unpaid_full_debt [where env = "sampleEnv ''inv-9''"
        and data = sampleFormData and pf = sampleSourceProforma and ps = "[]"
        and n = "''Livraison lundi''" and n' = "''Livraison lundi''" and t' = "''cash''"
        and c' = "''BC-7''"]
  from T have "status ?X = NonPaye" by blast
  then have c1: "status ?X = ''NonPay'' @ [CHR 0xE9]" by (simp add: NonPaye_def)
  from T have c2: "amount_paid ?X = Some 0" by blast
  from T have "stamp_tax ?X
     = calculateStampTax (case f_payment_type sampleFormData of None \<Rightarrow> [] | Some t \<Rightarrow> t)
         (subtotal ?X)" by blast
  then have c3: "stamp_tax ?X = 100"
    unfolding v n by (simp add: calculateStampTax_def)
  from T have "total ?X = subtotal ?X + taxtotal ?X + stamp_tax ?X" by blast
  then have c4: "total ?X = 12000" unfolding n c3 by simp
  from T have "client_debt ?X = Some (total ?X)" by blast
  then have c5: "client_debt ?X = Some 12000" unfolding c4 .
  from T have "clientid ?X = f_clientid sampleFormData" by blast
  then have c6: "clientid ?X = ''client-7''" unfolding v .
  from T h(1) have c7: "inv_notes ?X = ''Livraison lundi''" by blast
  from T have "payment_type ?X = f_payment_type sampleFormData" by blast
  then have c8: "payment_type ?X = Some ''cash''" unfolding v .
  from T have "bc ?X = f_bc sampleFormData" by blast
  then have c9: "bc ?X = Some ''BC-7''" unfolding v .
  from T h(2) have d1: "inv_notes ?Y = ''Livraison lundi''" by blast
  from T h(3) have d2: "payment_type ?Y = Some ''cash''" by blast
  from T h(4) have d3: "bc ?Y = Some ''BC-7''" by blast
  from T have "map quantity (items ?Y) = map quantity (pf_items sampleSourceProforma)" by blast
  then have d4: "map quantity (items ?Y) = [2]" unfolding v q .
  show ?thesis
    using h(1) c1 c2 n(1) n(2) c3 c4 c5 c6 c7 c8 c9 d1 d2 d3 d4 n(3) by (intro conjI)
qed

subsection \<open>The displayed status\<close>

text \<open>
  C1, as the code has it. The displayed status is the first match of: amount paid at least
  the total gives paid; otherwise a positive amount paid gives partially_paid; otherwise a
  stored status other than cancelled and credited gives unpaid; otherwise the stored status
  (cancelled or credited) is displayed. So cancelled and credited are kept only when the
  amount paid is not positive and below the total, and an amount paid of 0 gives unpaid
  only when the total is positive. The amount paid is the stored amount_paid when the
  invoice has both stored amounts.
\<close>

theorem computedStatus_first_match:
  "(amount_paid fi = Some x \<and> client_debt fi = Some d \<longrightarrow> fst (paymentSummary fi ps) = x) \<and>
   (total fi \<le> fst (paymentSummary fi ps) \<longrightarrow> displayStatus fi ps = ''paid'') \<and>
   (0 < fst (paymentSummary fi ps) \<and> fst (paymentSummary fi ps) < total fi
      \<longrightarrow> displayStatus fi ps = ''partially_paid'') \<and>
   (fst (paymentSummary fi ps) \<le> 0 \<and> fst (paymentSummary fi ps) < total fi
      \<and> status fi \<noteq> ''cancelled'' \<and> status fi \<noteq> ''credited''
      \<longrightarrow> displayStatus fi ps = ''unpaid'') \<and>
   (fst (paymentSummary fi ps) \<le> 0 \<and> fst (paymentSummary fi ps) < total fi
      \<and> (status fi = ''cancelled'' \<or> status fi = ''credited'')
      \<longrightarrow> displayStatus fi ps = status fi)"
  by (auto simp add: displayStatus_def computedStatus_def paymentSummary_def)

theorem computedStatus_first_match_witness:
  "displayStatus (sampleInvoice 1000 1000 0 ''unpaid'') [] = ''paid'' \<and>
   displayStatus (sampleInvoice 1000 400 600 ''unpaid'') [] = ''partially_paid'' \<and>
   displayStatus (sampleInvoice 1000 0 1000 ''paid'') [] = ''unpaid'' \<and>
   displayStatus (sampleInvoice 1000 0 1000 ''cancelled'') [] = ''cancelled''"
  using computedStatus_first_match [of "sampleInvoice 1000 1000 0 ''unpaid''" 1000 0 "[]"]
        computedStatus_first_match [of "sampleInvoice 1000 400 600 ''unpaid''" 400 600 "[]"]
        computedStatus_first_match [of "sampleInvoice 1000 0 1000 ''paid''" 0 1000 "[]"]
        computedStatus_first_match [of "sampleInvoice 1000 0 1000 ''cancelled''" 0 1000 "[]"]
  by (simp add: sampleInvoice_def)

text \<open>
  The claim C1 as written fails: a cancelled invoice of total 1000 with 400 paid is
  displayed as partially_paid, not as cancelled, and an invoice of total 0 with nothing
  paid and stored status unpaid is displayed as paid.
\<close>

theorem computedStatus_sticky_counterexample:
  "status (sampleInvoice 1000 400 600 ''cancelled'') = ''cancelled'' \<and>
   displayStatus (sampleInvoice 1000 400 600 ''cancelled'') [] = ''partially_paid'' \<and>
   displayStatus (sampleInvoice 1000 400 600 ''cancelled'') []
     \<noteq> status (sampleInvoice 1000 400 600 ''cancelled'') \<and>
   amount_paid (sampleInvoice 0 0 0 ''unpaid'') = Some 0 \<and>
   displayStatus (sampleInvoice 0 0 0 ''unpaid'') [] = ''paid'' \<and>
   displayStatus (sampleInvoice 0 0 0 ''unpaid'') [] \<noteq> ''unpaid''"
  by (simp add: displayStatus_def computedStatus_def paymentSummary_def sampleInvoice_def)

text \<open>
  C10. An invoice whose total is 0 or negative and whose amount paid is 0 is displayed as
  paid, whatever its stored status (cancelled and credited included) and whatever payments
  exist, and then the page offers none of mark-as-paid, cancel and delete.
\<close>

theorem zero_total_displays_paid:
  "(amount_paid fi = Some 0 \<and> client_debt fi = Some d \<longrightarrow> fst (paymentSummary fi ps) = 0) \<and>
   (total fi \<le> 0 \<and> fst (paymentSummary fi ps) = 0 \<longrightarrow>
      displayStatus fi ps = ''paid'' \<and>
      \<not> showMarkPaid canEdit fi ps \<and> \<not> showCancel canEdit fi ps
      \<and> \<not> showDelete canEdit fi ps)"
  by (simp add: displayStatus_def computedStatus_def showMarkPaid_def showCancel_def
        showDelete_def paymentSummary_def)

theorem zero_total_displays_paid_witness:
  "total (sampleInvoice 0 0 0 ''cancelled'') \<le> 0 \<and>
   amount_paid (sampleInvoice 0 0 0 ''cancelled'') = Some 0 \<and>
   displayStatus (sampleInvoice 0 0 0 ''cancelled'') [] = ''paid'' \<and>
   \<not> showMarkPaid True (sampleInvoice 0 0 0 ''cancelled'') [] \<and>
   \<not> showCancel True (sampleInvoice 0 0 0 ''cancelled'') [] \<and>
   \<not> showDelete True (sampleInvoice 0 0 0 ''cancelled'') [] \<and>
   displayStatus (sampleInvoice (- 50) 0 0 ''unpaid'') [] = ''paid''"
  using zero_total_displays_paid [where fi = "sampleInvoice 0 0 0 ''cancelled''" and d = 0
          and ps = "[]" and canEdit = True]
        zero_total_displays_paid [where fi = "sampleInvoice (- 50) 0 0 ''unpaid''" and d = 0
          and ps = "[]" and canEdit = True]
  by (simp add: sampleInvoice_def)

subsection \<open>Mark as paid and revert to unpaid\<close>

text \<open>
  C8. On a loaded page, mark-as-paid (the handler and the dialog action alike) sets
  amount_paid to exactly the total of the invoice and client_debt to 0, and leaves the
  total and the payment rows alone. It is idempotent: a second mark-as-paid gives the same
  page, and also with another date amount_paid is still the total, never twice the total.
\<close>

theorem markPaid_sets_total_idempotent:
  assumes "truthy (page_id page)" and "invoice page = Some fi"
  shows "markAsPaid today page = markPaidDialog today page \<and>
         invoice (markPaidDialog today page)
           = Some (fi \<lparr> status := ''paid'', payment_date := Some today,
                        amount_paid := Some (total fi), client_debt := Some 0 \<rparr>) \<and>
         payments (markPaidDialog today page) = payments page \<and>
         map_option amount_paid (invoice (markPaidDialog today page)) = Some (Some (total fi)) \<and>
         map_option client_debt (invoice (markPaidDialog today page)) = Some (Some 0) \<and>
         map_option total (invoice (markPaidDialog today page)) = Some (total fi) \<and>
         markPaidDialog today (markPaidDialog today page) = markPaidDialog today page \<and>
         markAsPaid today (markAsPaid today page) = markAsPaid today page \<and>
         map_option amount_paid (invoice (markPaidDialog later (markPaidDialog today page)))
           = Some (Some (total fi)) \<and>
         map_option amount_paid (invoice (markAsPaid later (markAsPaid today page)))
           = Some (Some (total fi)) \<and>
         map_option client_debt (invoice (markAsPaid later (markAsPaid today page)))
           = Some (Some 0)"
proof -
  let ?p1 = "markPaidDialog today page"
  let ?g = "fi \<lparr> status := ''paid'', payment_date := Some today,
                  amount_paid := Some (total fi), client_debt := Some 0 \<rparr>"
  have p1: "?p1 = page \<lparr> invoice := Some ?g \<rparr>"
    by (rule markPaidDialog_step [OF assms(2)])
  have inv1: "invoice ?p1 = Some ?g" by (simp add: p1)
  have p2: "markPaidDialog d ?p1
     = ?p1 \<lparr> invoice := Some (?g \<lparr> status := ''paid'', payment_date := Some d,
                               amount_paid := Some (total ?g), client_debt := Some 0 \<rparr>) \<rparr>" for d
    by (rule markPaidDialog_step [OF inv1])
  have e1: "markAsPaid today page = ?p1"
    by (rule markAsPaid_eq_dialog [OF assms(1)])
  have e2: "markAsPaid d ?p1 = markPaidDialog d ?p1" for d
    by (rule markAsPaid_eq_dialog) (simp add: markPaidDialog_page_id assms(1))
  show ?thesis
    unfolding e1 e2 p2 by (simp add: p1)
qed

theorem markPaid_sets_total_idempotent_witness:
  "truthy (page_id (samplePage (sampleInvoice 1000 0 1000 ''unpaid'') [])) \<and>
   map_option amount_paid
     (invoice (markAsPaid ''2025-03-01'' (samplePage (sampleInvoice 1000 0 1000 ''unpaid'') [])))
     = Some (Some 1000) \<and>
   map_option client_debt
     (invoice (markAsPaid ''2025-03-01'' (samplePage (sampleInvoice 1000 0 1000 ''unpaid'') [])))
     = Some (Some 0) \<and>
   map_option amount_paid
     (invoice (markAsPaid ''2025-03-02''
        (markAsPaid ''2025-03-01'' (samplePage (sampleInvoice 1000 0 1000 ''unpaid'') []))))
     = Some (Some 1000)"
proof -
  have h1: "truthy (page_id (samplePage (sampleInvoice 1000 0 1000 ''unpaid'') []))"
    by (simp add: samplePage_def truthy_def)
  have h2: "invoice (samplePage (sampleInvoice 1000 0 1000 ''unpaid'') [])
              = Some (sampleInvoice 1000 0 1000 ''unpaid'')"
    by (simp add: samplePage_def)
  have t: "total (sampleInvoice 1000 0 1000 ''unpaid'') = 1000"
    by (simp add: sampleInvoice_def)
  show ?thesis
    using h1 markPaid_sets_total_idempotent [OF h1 h2, of "''2025-03-01''" "''2025-03-02''"]
    unfolding t by metis
qed

text \<open>
  C2, as the code has it. On a loaded page, revert-to-unpaid leaves the payment rows as
  they are and stores the status unpaid; when the payments sum to more than 0 it sets
  amount_paid to their sum and client_debt to max(0, total - sum); otherwise (no payment,
  or a sum that is not positive) it sets amount_paid to 0 and client_debt to the total,
  and clears paymentdate. Payments with positive amounts sum to more than 0 exactly when
  there is at least one.
\<close>

theorem revert_recomputes_from_payments:
  assumes "truthy (page_id page)" and "invoice page = Some fi"
  shows "payments (revertToUnpaid page) = payments page \<and>
         (0 < totalPaid (payments page) \<longrightarrow>
            invoice (revertToUnpaid page)
              = Some (fi \<lparr> status := ''unpaid'',
                           amount_paid := Some (totalPaid (payments page)),
                           client_debt := Some (max 0 (total fi - totalPaid (payments page))) \<rparr>)) \<and>
         (\<not> 0 < totalPaid (payments page) \<longrightarrow>
            invoice (revertToUnpaid page)
              = Some (fi \<lparr> status := ''unpaid'', amount_paid := Some 0,
                           client_debt := Some (total fi), paymentdate := None \<rparr>)) \<and>
         totalPaid (payments page) = sum_list (map amount (payments page)) \<and>
         ((\<forall>p\<in>set (payments page). 0 < amount p) \<longrightarrow>
            (0 < totalPaid (payments page)) = (payments page \<noteq> []))"
proof -
  have "payments (revertToUnpaid page) = payments page"
    using assms by (simp add: revertToUnpaid_def revert_data mutate_def)
  moreover note revert_invoice [OF assms] totalPaid_sum_list [of "payments page"]
    totalPaid_pos_iff [of "payments page"]
  ultimately show ?thesis by simp
qed

theorem revert_recomputes_from_payments_witness:
  "map_option amount_paid (invoice (revertToUnpaid
      (samplePage (sampleInvoice 1000 1000 0 ''paid'') [samplePayment ''pay-1'' 400])))
     = Some (Some 400) \<and>
   map_option client_debt (invoice (revertToUnpaid
      (samplePage (sampleInvoice 1000 1000 0 ''paid'') [samplePayment ''pay-1'' 400])))
     = Some (Some 600) \<and>
   payments (revertToUnpaid
      (samplePage (sampleInvoice 1000 1000 0 ''paid'') [samplePayment ''pay-1'' 400]))
     = [samplePayment ''pay-1'' 400] \<and>
   map_option amount_paid (invoice (revertToUnpaid
      (samplePage (sampleInvoice 1000 1000 0 ''paid'') [])))
     = Some (Some 0)"
proof -
  let ?fi = "sampleInvoice 1000 1000 0 ''paid''"
  let ?ps = "[samplePayment ''pay-1'' 400]"
  have h1: "truthy (page_id (samplePage ?fi ps))" for ps
    by (simp add: samplePage_def truthy_def)
  have h2: "invoice (samplePage ?fi ps) = Some ?fi" for ps
    by (simp add: samplePage_def)
  have h3: "payments (samplePage ?fi ps) = ps" for ps
    by (simp add: samplePage_def)
  have t: "totalPaid ?ps = 400" "totalPaid [] = 0" "total ?fi = 1000"
    "\<forall>p\<in>set ?ps. 0 < amount p"
    by (simp_all add: totalPaid_def samplePayment_def sampleInvoice_def)
  show ?thesis
    using t(4) revert_recomputes_from_payments [OF h1 h2, of ?ps]
          revert_recomputes_from_payments [OF h1 h2, of "[]"]
    by (simp add: h3 t)
qed

text \<open>
  The claim C2 as written fails where no payment exists: the revert of an invoice of total
  1000 that was marked as paid sets client_debt to 1000, not to 0.
\<close>

theorem revert_without_payments_counterexample:
  "payments (samplePage (sampleInvoice 1000 1000 0 ''paid'') []) = [] \<and>
   displayStatus (sampleInvoice 1000 1000 0 ''paid'') [] = ''paid'' \<and>
   map_option amount_paid
     (invoice (revertToUnpaid (samplePage (sampleInvoice 1000 1000 0 ''paid'') [])))
     = Some (Some 0) \<and>
   map_option client_debt
     (invoice (revertToUnpaid (samplePage (sampleInvoice 1000 1000 0 ''paid'') [])))
     = Some (Some 1000) \<and>
   map_option client_debt
     (invoice (revertToUnpaid (samplePage (sampleInvoice 1000 1000 0 ''paid'') [])))
     \<noteq> Some (Some 0)"
  by (simp add: revertToUnpaid_def handleUpdateStatus_def noAdditionalData_def mutate_def
        updateFinalInvoice_def samplePage_def sampleInvoice_def truthy_def totalPaid_def
        falsy_number_def displayStatus_def computedStatus_def paymentSummary_def Let_def)

subsection \<open>The balance of a final invoice\<close>






lemma balanced_recomputeAggregates:
  assumes "totalPaid rows \<le> total fi"
  shows "balanced (recomputeAggregates rows fi)"
  using assms by (simp add: balanced_def recomputeAggregates_def)






subsection \<open>The amount of a payment\<close>





subsection \<open>Converting a proforma\<close>

text \<open>
  C6. The proforma page offers the conversion only for an approved proforma without a
  finalInvoiceId, and the conversion itself succeeds exactly for an approved proforma
  without a finalInvoiceId. A successful conversion adds one final invoice and sets the
  finalInvoiceId; a second conversion of the converted proforma fails and adds nothing, and
  (the new id being a non-empty string) the page no longer offers it, so that a second
  click is a no-op and two clicks create at most one final invoice.
\<close>

theorem convert_at_most_once:
  "(showConvert canConvert pf \<longrightarrow> pf_status pf = approved \<and> \<not> truthy (finalInvoiceId pf)) \<and>
   (pf_status (proforma st) = approved \<and> finalInvoiceId (proforma st) = None \<longrightarrow>
      (\<exists>st'. convertProformaToFinal env st = Inr st')) \<and>
   (\<not> (pf_status (proforma st) = approved \<and> finalInvoiceId (proforma st) = None) \<longrightarrow>
      convertProformaToFinal env st = Inl ConversionNotAllowed) \<and>
   (\<forall>st'. convertProformaToFinal env st = Inr st' \<longrightarrow>
      finalInvoiceId (proforma st') = Some (env_invoiceId env) \<and>
      length (finals st') = length (finals st) + 1 \<and>
      convertProformaToFinal env2 st' = Inl ConversionNotAllowed \<and>
      (env_invoiceId env \<noteq> [] \<longrightarrow>
         \<not> showConvert canConvert (proforma st') \<and>
         clickConvert canConvert pid env2 st' = st')) \<and>
   (env_invoiceId env \<noteq> [] \<longrightarrow>
      clickConvert canConvert pid env2 (clickConvert canConvert pid env st)
        = clickConvert canConvert pid env st \<and>
      length (finals (clickConvert canConvert pid env2 (clickConvert canConvert pid env st)))
        \<le> length (finals st) + 1)"
proof -
  have a: "showConvert canConvert pf \<longrightarrow> pf_status pf = approved \<and> \<not> truthy (finalInvoiceId pf)"
    by (simp add: showConvert_def)
  have b: "pf_status (proforma st) = approved \<and> finalInvoiceId (proforma st) = None \<longrightarrow>
      (\<exists>st'. convertProformaToFinal env st = Inr st')"
    by (simp add: convertProformaToFinal_def)
  have c: "\<not> (pf_status (proforma st) = approved \<and> finalInvoiceId (proforma st) = None) \<longrightarrow>
      convertProformaToFinal env st = Inl ConversionNotAllowed"
    by (auto simp add: convertProformaToFinal_def)
  have d: "finalInvoiceId (proforma st') = Some (env_invoiceId env) \<and>
      length (finals st') = length (finals st) + 1 \<and>
      convertProformaToFinal env2 st' = Inl ConversionNotAllowed \<and>
      (env_invoiceId env \<noteq> [] \<longrightarrow>
         \<not> showConvert canConvert (proforma st') \<and>
         clickConvert canConvert pid env2 st' = st')"
    if "convertProformaToFinal env st = Inr st'" for st'
    using that
    by (auto simp add: convertProformaToFinal_def showConvert_def clickConvert_def truthy_def
          split: if_splits)
  have e: "clickConvert canConvert pid env2 (clickConvert canConvert pid env st)
        = clickConvert canConvert pid env st \<and>
      length (finals (clickConvert canConvert pid env2 (clickConvert canConvert pid env st)))
        \<le> length (finals st) + 1"
    if ne: "env_invoiceId env \<noteq> []"
  proof (cases "convertProformaToFinal env st")
    case (Inl err)
    then have no: "\<not> (pf_status (proforma st) = approved \<and> finalInvoiceId (proforma st) = None)"
      by (auto simp add: convertProformaToFinal_def split: if_splits)
    have "convertProformaToFinal e st = Inl ConversionNotAllowed" for e
      using no by (auto simp add: convertProformaToFinal_def)
    then have "clickConvert canConvert pid e st = st" for e
      by (simp add: clickConvert_def)
    then show ?thesis by simp
  next
    case (Inr st')
    show ?thesis
    proof (cases "showConvert canConvert (proforma st) \<and> truthy pid")
      case True
      then have "clickConvert canConvert pid env st = st'"
        using Inr by (simp add: clickConvert_def)
      then show ?thesis using d [OF Inr] ne by simp
    next
      case False
      then have "clickConvert canConvert pid env st = st"
        by (auto simp add: clickConvert_def)
      moreover have "clickConvert canConvert pid env2 st = st"
        using False by (auto simp add: clickConvert_def)
      ultimately show ?thesis by simp
    qed
  qed
  show ?thesis using a b c d e by blast
qed

theorem convert_at_most_once_witness:
  "showConvert True (sampleProforma approved None) \<and>
   \<not> showConvert True (sampleProforma approved (Some ''inv-1'')) \<and>
   (\<exists>st'. convertProformaToFinal (sampleEnv ''inv-1'')
             \<lparr> proforma = sampleProforma approved None, finals = [] \<rparr> = Inr st') \<and>
   convertProformaToFinal (sampleEnv ''inv-2'')
     \<lparr> proforma = sampleProforma sent None, finals = [] \<rparr> = Inl ConversionNotAllowed \<and>
   length (finals (clickConvert True (Some ''pro-1'') (sampleEnv ''inv-2'')
             (clickConvert True (Some ''pro-1'') (sampleEnv ''inv-1'')
                \<lparr> proforma = sampleProforma approved None, finals = [] \<rparr>))) \<le> 1"
proof -
  let ?st = "\<lparr> proforma = sampleProforma approved None, finals = [] \<rparr>"
  let ?st2 = "\<lparr> proforma = sampleProforma sent None, finals = [] \<rparr>"
  have s1: "showConvert True (sampleProforma approved None)"
    and s2: "\<not> showConvert True (sampleProforma approved (Some ''inv-1''))"
    by (simp_all add: showConvert_def sampleProforma_def truthy_def)
  have h: "pf_status (proforma ?st) = approved \<and> finalInvoiceId (proforma ?st) = None"
    and h2: "\<not> (pf_status (proforma ?st2) = approved \<and> finalInvoiceId (proforma ?st2) = None)"
    and ne: "env_invoiceId (sampleEnv ''inv-1'') \<noteq> []"
    and len: "length (finals ?st) = 0"
    by (simp_all add: sampleProforma_def sampleEnv_def)
  show ?thesis
    using s1 s2 h h2 ne len
      convert_at_most_once [of True "sampleProforma approved None" ?st "sampleEnv ''inv-1''"
         "sampleEnv ''inv-2''" "Some ''pro-1''"]
      convert_at_most_once [of True "sampleProforma approved None" ?st2 "sampleEnv ''inv-2''"
         "sampleEnv ''inv-2''" "Some ''pro-1''"]
    by (metis add_0)
qed

end
